theory Spec2Isabelle
  imports Complex_Main
begin

unbundle bit_operations_syntax

section \<open>Python values and exceptions\<close>

text \<open>
  A Python string is a list of characters; \<open>ord\<close> reads a character's code. Characters
  are 8-bit here, so the development speaks about lines whose code points are below 256.
  Every exception the decoder can raise is a constructor: the two \<open>ValueError\<close>s of the
  source (tuple unpacking with the number of values found, and an invalid literal for
  \<open>int()\<close> with its base and text) are kept apart, as their messages are in Python.
  \<open>InterpretError\<close> and \<open>CreationError\<close> are the exceptions of the bit-array library
  behind \<open>signed\<close>.
\<close>

datatype error =
    ValueError_unpack nat
  | ValueError_literal nat string
  | ValueError_chr int
  | IndexError
  | KeyError int
  | TypeError
  | InterpretError
  | CreationError

definition bindE :: "error + 'a \<Rightarrow> ('a \<Rightarrow> error + 'b) \<Rightarrow> error + 'b" where
  "bindE m f = (case m of Inl e \<Rightarrow> Inl e | Inr x \<Rightarrow> f x)"

definition py_ord :: "char \<Rightarrow> int" where
  "py_ord c = of_char c"

definition py_chr :: "int \<Rightarrow> error + char" where
  "py_chr n = (if 0 \<le> n \<and> n < 256 then Inr (char_of n) else Inl (ValueError_chr n))"

text \<open>Slices \<open>s[i:j]\<close> and \<open>s[i:]\<close> with literal bounds never raise; \<open>s[i]\<close> does.\<close>

definition slice :: "nat \<Rightarrow> nat \<Rightarrow> 'a list \<Rightarrow> 'a list" where
  "slice i j s = take (j - i) (drop i s)"

definition slice_from :: "nat \<Rightarrow> 'a list \<Rightarrow> 'a list" where
  "slice_from i s = drop i s"

definition index :: "string \<Rightarrow> nat \<Rightarrow> error + string" where
  "index s i = (if i < length s then Inr [s ! i] else Inl IndexError)"

subsection \<open>The builtin \<open>int(text, base)\<close>\<close>

text \<open>
  The integer literal grammar of CPython: blanks around the literal, one sign, the base
  prefix (\<open>0b\<close>, \<open>0o\<close>, \<open>0x\<close>) followed by at most one underscore, then digits of the
  base with single underscores between them. Anything else raises \<open>ValueError\<close>.
\<close>

definition is_space :: "char \<Rightarrow> bool" where
  "is_space c = (c \<in> set [CHR '' '', CHR 0x09, CHR 0x0A, CHR 0x0B, CHR 0x0C, CHR 0x0D,
                          CHR 0x85, CHR 0xA0])"

definition digit_value :: "char \<Rightarrow> nat option" where
  "digit_value c =
     (let n = (of_char c :: nat) in
      if 48 \<le> n \<and> n \<le> 57 then Some (n - 48)
      else if 97 \<le> n \<and> n \<le> 122 then Some (n - 87)
      else if 65 \<le> n \<and> n \<le> 90 then Some (n - 55)
      else None)"

definition is_digit :: "nat \<Rightarrow> char \<Rightarrow> bool" where
  "is_digit base c = (case digit_value c of None \<Rightarrow> False | Some d \<Rightarrow> d < base)"

definition strip_sign :: "string \<Rightarrow> bool \<times> string" where
  "strip_sign s =
     (case s of
        [] \<Rightarrow> (False, s)
      | c # r \<Rightarrow> if c = CHR ''-'' then (True, r) else if c = CHR ''+'' then (False, r)
                 else (False, s))"

definition base_letters :: "nat \<Rightarrow> string" where
  "base_letters base =
     (if base = 16 then ''xX'' else if base = 8 then ''oO'' else if base = 2 then ''bB''
      else [])"

definition strip_prefix :: "nat \<Rightarrow> string \<Rightarrow> string" where
  "strip_prefix base s =
     (case s of
        z # l # r \<Rightarrow>
          if z = CHR ''0'' \<and> l \<in> set (base_letters base)
          then (case r of [] \<Rightarrow> r | u # r' \<Rightarrow> if u = CHR ''_'' then r' else r)
          else s
      | _ \<Rightarrow> s)"

fun double_underscore :: "string \<Rightarrow> bool" where
  "double_underscore (a # b # r) =
     ((a = CHR ''_'' \<and> b = CHR ''_'') \<or> double_underscore (b # r))"
| "double_underscore _ = False"

definition digits_value :: "nat \<Rightarrow> string \<Rightarrow> int" where
  "digits_value base body =
     foldl (\<lambda>a c. case digit_value c of None \<Rightarrow> a | Some d \<Rightarrow> a * int base + int d) 0 body"

definition py_int :: "nat \<Rightarrow> string \<Rightarrow> error + int" where
  "py_int base s =
     (let (neg, s2) = strip_sign (dropWhile is_space s);
          s3 = strip_prefix base s2;
          body = takeWhile (\<lambda>c. is_digit base c \<or> c = CHR ''_'') s3;
          rest = dropWhile (\<lambda>c. is_digit base c \<or> c = CHR ''_'') s3
      in if body = [] \<or> hd body = CHR ''_'' \<or> last body = CHR ''_''
            \<or> double_underscore body \<or> \<not> list_all is_space rest
         then Inl (ValueError_literal base s)
         else Inr (if neg then - digits_value base body else digits_value base body))"

subsection \<open>The format specification \<open>06b\<close>\<close>

text \<open>
  \<open>f'{c:06b}'\<close> writes the sign of a negative number, then the binary digits of the
  magnitude, with zeros between the two up to a total width of six. The width is a
  minimum: a longer number is written in full.
\<close>

definition bit_char :: "nat \<Rightarrow> char" where
  "bit_char b = (if b = 0 then CHR ''0'' else CHR ''1'')"

fun bin_digits :: "nat \<Rightarrow> string" where
  "bin_digits n = (if n < 2 then [bit_char n] else bin_digits (n div 2) @ [bit_char (n mod 2)])"

declare bin_digits.simps [simp del]

definition format_06b :: "int \<Rightarrow> string" where
  "format_06b c =
     (let sgn = (if c < 0 then ''-'' else []);
          ds = bin_digits (nat \<bar>c\<bar>)
      in sgn @ replicate (6 - length sgn - length ds) (CHR ''0'') @ ds)"

section \<open>The decoder's helpers\<close>

text \<open>\<open>decode_ascii6\<close>: the loop appends one formatted group per payload character.\<close>

definition armor_value :: "char \<Rightarrow> int" where
  "armor_value ch = (let c = py_ord ch - 48 in if c > 40 then c - 8 else c)"

fun decode_ascii6_loop :: "string \<Rightarrow> string \<Rightarrow> string" where
  "decode_ascii6_loop [] binary_string = binary_string"
| "decode_ascii6_loop (c # data) binary_string =
     decode_ascii6_loop data (binary_string @ format_06b (armor_value c))"

definition decode_ascii6 :: "string \<Rightarrow> string" where
  "decode_ascii6 data = decode_ascii6_loop data []"

text \<open>
  \<open>split_str\<close>: \<open>ceil(len(string) / chunk_size)\<close> chunks, the \<open>i\<close>-th being
  \<open>string[i * chunk_size:(i + 1) * chunk_size]\<close>.
\<close>

definition split_str :: "string \<Rightarrow> nat \<Rightarrow> string list" where
  "split_str string chunk_size =
     (let chunks = (length string + chunk_size - 1) div chunk_size
      in map (\<lambda>i. slice (i * chunk_size) ((i + 1) * chunk_size) string) [0..<chunks])"

text \<open>
  \<open>ascii6\<close>: the loop over the chunks, with its early \<open>return\<close> at the filler. The second
  argument is \<open>ignore_tailing_fillers\<close>, which the source defaults to \<open>True\<close>.
\<close>

fun ascii6_loop :: "bool \<Rightarrow> string list \<Rightarrow> string \<Rightarrow> error + string" where
  "ascii6_loop ignore_tailing_fillers [] string = Inr string"
| "ascii6_loop ignore_tailing_fillers (c # rest) string =
     bindE (py_int 2 c) (\<lambda>c.
     bindE (py_chr (if c < 32 then c + 64 else c)) (\<lambda>c.
       if ignore_tailing_fillers \<and> c = CHR ''@'' then Inr string
       else ascii6_loop ignore_tailing_fillers rest (string @ [c])))"

definition ascii6 :: "string \<Rightarrow> bool \<Rightarrow> error + string" where
  "ascii6 data ignore_tailing_fillers =
     ascii6_loop ignore_tailing_fillers (split_str data 6) []"

text \<open>
  \<open>signed\<close> hands the text to the bit-array library and reads it as a two's complement
  number. The library refuses to read an empty array as an integer. The model covers the
  texts \<open>decode_ascii6\<close> can produce, which consist of \<open>0\<close>, \<open>1\<close> and \<open>-\<close>: a text
  with a character that is no binary digit raises here. The library itself also accepts
  a \<open>0b\<close> prefix and blanks inside the text, which no such text contains.
\<close>

definition bin_value :: "string \<Rightarrow> int" where
  "bin_value bits = foldl (\<lambda>a c. 2 * a + (if c = CHR ''1'' then 1 else 0)) 0 bits"

definition is_bit :: "char \<Rightarrow> bool" where
  "is_bit c = (c = CHR ''0'' \<or> c = CHR ''1'')"

definition signed :: "string \<Rightarrow> error + int" where
  "signed bit_vector =
     (if \<not> list_all is_bit bit_vector then Inl CreationError
      else if bit_vector = [] then Inl InterpretError
      else Inr (if hd bit_vector = CHR ''1''
                then bin_value bit_vector - 2 ^ length bit_vector
                else bin_value bit_vector))"

definition to_int :: "string \<Rightarrow> nat \<Rightarrow> error + int" where
  "to_int bit_string base = (if bit_string \<noteq> [] then py_int base bit_string else Inr 0)"

text \<open>\<open>checksum\<close>: the exclusive or of the codes after the first character, up to \<open>*\<close>.\<close>

fun checksum_loop :: "string \<Rightarrow> int \<Rightarrow> int" where
  "checksum_loop [] c_sum = c_sum"
| "checksum_loop (c # rest) c_sum =
     (if c = CHR ''*'' then c_sum else checksum_loop rest (c_sum XOR py_ord c))"

definition checksum :: "string \<Rightarrow> int" where
  "checksum msg = checksum_loop (slice_from 1 msg) 0"

section \<open>The code tables\<close>

definition UNDEFINED :: string where
  "UNDEFINED = ''Undefined''"

definition RESERVED :: string where
  "RESERVED = ''Reserved''"

definition NAVIGATION_STATUS :: "(int \<times> string) list" where
  "NAVIGATION_STATUS =
     [(0, ''Under way using engine''),
      (1, ''At anchor''),
      (2, ''Not under command''),
      (3, ''Restricted manoeuverability''),
      (4, ''Constrained by her draught''),
      (5, ''Moored''),
      (6, ''Aground''),
      (7, ''Engaged in Fishing''),
      (8, ''Under way sailing''),
      (9, ''Reserved''),
      (10, ''Reserved''),
      (11, ''Reserved''),
      (12, ''Reserved''),
      (13, ''Reserved''),
      (14, ''AIS-SART is active''),
      (15, ''Undefined'')]"

definition MANEUVER_INDICATOR :: "(int \<times> string) list" where
  "MANEUVER_INDICATOR =
     [(0, ''Not available''),
      (1, ''No special maneuver''),
      (2, ''Special maneuver'')]"

definition EPFD_TYPE :: "(int \<times> string) list" where
  "EPFD_TYPE =
     [(0, ''Undefined''),
      (1, ''GPS''),
      (2, ''GLONASS''),
      (3, ''GPS/GLONASS''),
      (4, ''Loran-C''),
      (5, ''Chayka''),
      (6, ''Integrated navigation system''),
      (7, ''Surveyed''),
      (8, ''Galileo'')]"

definition SHIP_TYPE :: "(int \<times> string) list" where
  "SHIP_TYPE =
     [(0, ''Not available''),
      (20, ''Wing in ground (WIG)''),
      (21, ''Wing in ground (WIG), Hazardous category A''),
      (22, ''Wing in ground (WIG), Hazardous category B''),
      (23, ''Wing in ground (WIG), Hazardous category C''),
      (24, ''Wing in ground (WIG), Hazardous category D''),
      (25, ''WIG Reserved''),
      (26, ''WIG Reserved''),
      (27, ''WIG Reserved''),
      (28, ''WIG Reserved''),
      (29, ''WIG Reserved''),
      (30, ''Fishing''),
      (31, ''Towing''),
      (32, ''Towing,length exceeds 200m or breadth exceeds 25m''),
      (33, ''Dredging or underwater ops''),
      (34, ''Diving ops''),
      (35, ''Military ops''),
      (36, ''Sailing''),
      (37, ''Pleasure Craft''),
      (38, ''Reserved''),
      (39, ''Reserved''),
      (40, ''High speed craft (HSC)''),
      (41, ''High speed craft (HSC), Hazardous category A''),
      (42, ''High speed craft (HSC), Hazardous category B''),
      (43, ''High speed craft (HSC), Hazardous category C''),
      (44, ''High speed craft (HSC), Hazardous category D''),
      (45, ''High speed craft (HSC), Reserved''),
      (46, ''High speed craft (HSC), Reserved''),
      (47, ''High speed craft (HSC), Reserved''),
      (48, ''High speed craft (HSC), Reserved''),
      (49, ''High speed craft (HSC), No additional information''),
      (50, ''Pilot Vessel''),
      (51, ''Search and Rescue vessel''),
      (52, ''Tug''),
      (53, ''Port Tender''),
      (54, ''Anti-pollution equipment''),
      (55, ''Law Enforcement''),
      (56, ''Spare - Local Vessel''),
      (57, ''Spare - Local Vessel''),
      (58, ''Medical Transport''),
      (59, ''Noncombatant ship according to RR Resolution No. 18''),
      (60, ''Passenger''),
      (61, ''Passenger, Hazardous category A''),
      (62, ''Passenger, Hazardous category B''),
      (63, ''Passenger, Hazardous category C''),
      (64, ''Passenger, Hazardous category D''),
      (65, ''Passenger, Reserved''),
      (66, ''Passenger, Reserved''),
      (67, ''Passenger, Reserved''),
      (68, ''Passenger, Reserved''),
      (69, ''Passenger, No additional information''),
      (70, ''Cargo''),
      (71, ''Cargo, Hazardous category A''),
      (72, ''Cargo, Hazardous category B''),
      (73, ''Cargo, Hazardous category C''),
      (74, ''Cargo, Hazardous category D''),
      (75, ''Cargo, Reserved''),
      (76, ''Cargo, Reserved''),
      (77, ''Cargo, Reserved''),
      (78, ''Cargo, Reserved''),
      (79, ''Cargo, No additional information''),
      (80, ''Tanker''),
      (81, ''Tanker, Hazardous category A''),
      (82, ''Tanker, Hazardous category B''),
      (83, ''Tanker, Hazardous category C''),
      (84, ''Tanker, Hazardous category D''),
      (85, ''Tanker, Reserved ''),
      (86, ''Tanker, Reserved ''),
      (87, ''Tanker, Reserved ''),
      (88, ''Tanker, Reserved ''),
      (89, ''Tanker, No additional information''),
      (90, ''Other Type''),
      (91, ''Other Type, Hazardous category A''),
      (92, ''Other Type, Hazardous category B''),
      (93, ''Other Type, Hazardous category C''),
      (94, ''Other Type, Hazardous category D''),
      (95, ''Other Type, Reserved''),
      (96, ''Other Type, Reserved''),
      (97, ''Other Type, Reserved''),
      (98, ''Other Type, Reserved''),
      (99, ''Other Type, No additional information'')]"

text \<open>\<open>TABLE[key]\<close> raises \<open>KeyError\<close> for a key the table does not have.\<close>

definition subscript :: "(int \<times> string) list \<Rightarrow> int \<Rightarrow> error + string" where
  "subscript table k = (case map_of table k of None \<Rightarrow> Inl (KeyError k) | Some v \<Rightarrow> Inr v)"

definition has_key :: "(int \<times> string) list \<Rightarrow> int \<Rightarrow> bool" where
  "has_key table k = (k \<in> set (map fst table))"

section \<open>The message decoders\<close>

text \<open>
  A decoded message is the dictionary the source builds, in the order of its keys. Floats
  are idealised as reals. A decoder returns \<open>None\<close> where the source's function body is
  \<open>pass\<close>. The fields are evaluated in the order the source evaluates them, so the first
  exception is the one the source raises.
\<close>

datatype pyval =
    PInt int
  | PBool bool
  | PFloat real
  | PStr string
  | PTuple int string

type_synonym message = "(string \<times> pyval) list"

definition py_bool :: "int \<Rightarrow> bool" where
  "py_bool n = (n \<noteq> 0)"

definition decode_msg_1 :: "string \<Rightarrow> error + message option" where
  "decode_msg_1 bit_vector =
     bindE (to_int (slice 38 42 bit_vector) 2) (\<lambda>status.
     bindE (to_int (slice 143 145 bit_vector) 2) (\<lambda>maneuver.
     bindE (to_int (slice 0 6 bit_vector) 2) (\<lambda>type.
     bindE (to_int (slice 6 8 bit_vector) 2) (\<lambda>repeat.
     bindE (to_int (slice 8 38 bit_vector) 2) (\<lambda>mmsi.
     bindE (subscript NAVIGATION_STATUS status) (\<lambda>status_label.
     bindE (signed (slice 42 50 bit_vector)) (\<lambda>turn.
     bindE (to_int (slice 50 60 bit_vector) 2) (\<lambda>speed.
     bindE (index bit_vector 60) (\<lambda>b60.
     bindE (to_int b60 2) (\<lambda>accuracy.
     bindE (signed (slice 61 89 bit_vector)) (\<lambda>lon.
     bindE (signed (slice 89 116 bit_vector)) (\<lambda>lat.
     bindE (to_int (slice 116 128 bit_vector) 2) (\<lambda>course.
     bindE (to_int (slice 128 137 bit_vector) 2) (\<lambda>heading.
     bindE (to_int (slice 137 143 bit_vector) 2) (\<lambda>second.
     bindE (subscript MANEUVER_INDICATOR maneuver) (\<lambda>maneuver_label.
     bindE (index bit_vector 148) (\<lambda>b148.
     bindE (to_int b148 2) (\<lambda>raim.
     bindE (to_int (slice_from 149 bit_vector) 2) (\<lambda>radio.
       Inr (Some
         [(''type'', PInt type),
          (''repeat'', PInt repeat),
          (''mmsi'', PInt mmsi),
          (''status'', PTuple status status_label),
          (''turn'', PInt turn),
          (''speed'', PInt speed),
          (''accuracy'', PInt accuracy),
          (''lon'', PFloat (real_of_int lon / 600000)),
          (''lat'', PFloat (real_of_int lat / 600000)),
          (''course'', PFloat (real_of_int course * (1 / 10))),
          (''heading'', PInt heading),
          (''second'', PInt second),
          (''maneuver'', PTuple maneuver maneuver_label),
          (''raim'', PBool (py_bool raim)),
          (''radio'', PInt radio)]))))))))))))))))))))"

definition decode_msg_2 :: "string \<Rightarrow> error + message option" where
  "decode_msg_2 bit_vector = decode_msg_1 bit_vector"

definition decode_msg_3 :: "string \<Rightarrow> error + message option" where
  "decode_msg_3 bit_vector = decode_msg_1 bit_vector"

definition decode_msg_4 :: "string \<Rightarrow> error + message option" where
  "decode_msg_4 bit_vector =
     bindE (to_int (slice 134 138 bit_vector) 2) (\<lambda>epfd.
     bindE (to_int (slice 0 6 bit_vector) 2) (\<lambda>type.
     bindE (to_int (slice 6 8 bit_vector) 2) (\<lambda>repeat.
     bindE (to_int (slice 8 38 bit_vector) 2) (\<lambda>mmsi.
     bindE (to_int (slice 38 52 bit_vector) 2) (\<lambda>year.
     bindE (to_int (slice 52 56 bit_vector) 2) (\<lambda>month.
     bindE (to_int (slice 56 61 bit_vector) 2) (\<lambda>day.
     bindE (to_int (slice 61 66 bit_vector) 2) (\<lambda>hour.
     bindE (to_int (slice 66 72 bit_vector) 2) (\<lambda>minute.
     bindE (to_int (slice 72 78 bit_vector) 2) (\<lambda>second.
     bindE (index bit_vector 78) (\<lambda>b78.
     bindE (to_int b78 2) (\<lambda>accuracy.
     bindE (signed (slice 66 72 bit_vector)) (\<lambda>lon.
     bindE (signed (slice 66 72 bit_vector)) (\<lambda>lat.
     bindE (if has_key EPFD_TYPE epfd then subscript EPFD_TYPE epfd else Inr UNDEFINED)
       (\<lambda>epfd_label.
     bindE (index bit_vector 148) (\<lambda>b148.
     bindE (to_int b148 2) (\<lambda>raim.
     bindE (to_int (slice_from 148 bit_vector) 2) (\<lambda>radio.
       Inr (Some
         [(''type'', PInt type),
          (''repeat'', PInt repeat),
          (''mmsi'', PInt mmsi),
          (''year'', PInt year),
          (''month'', PInt month),
          (''day'', PInt day),
          (''hour'', PInt hour),
          (''minute'', PInt minute),
          (''second'', PInt second),
          (''accuracy'', PBool (py_bool accuracy)),
          (''lon'', PFloat (real_of_int lon / 600000)),
          (''lat'', PFloat (real_of_int lat / 600000)),
          (''epfd'', PTuple epfd epfd_label),
          (''raim'', PBool (py_bool raim)),
          (''radio'', PInt radio)])))))))))))))))))))"

definition decode_msg_5 :: "string \<Rightarrow> error + message option" where
  "decode_msg_5 bit_vector =
     bindE (to_int (slice 270 274 bit_vector) 2) (\<lambda>epfd.
     bindE (to_int (slice 66 72 bit_vector) 2) (\<lambda>ship_type.
     bindE (to_int (slice 0 6 bit_vector) 2) (\<lambda>type.
     bindE (to_int (slice 6 8 bit_vector) 2) (\<lambda>repeat.
     bindE (to_int (slice 8 38 bit_vector) 2) (\<lambda>mmsi.
     bindE (to_int (slice 38 40 bit_vector) 2) (\<lambda>ais_version.
     bindE (to_int (slice 40 70 bit_vector) 2) (\<lambda>imo.
     bindE (ascii6 (slice 70 112 bit_vector) True) (\<lambda>callsign.
     bindE (ascii6 (slice 112 232 bit_vector) True) (\<lambda>shipname.
     bindE (if has_key SHIP_TYPE ship_type then subscript SHIP_TYPE ship_type
            else Inr UNDEFINED) (\<lambda>ship_type_label.
     bindE (to_int (slice 240 249 bit_vector) 2) (\<lambda>to_bow.
     bindE (to_int (slice 249 258 bit_vector) 2) (\<lambda>to_stern.
     bindE (to_int (slice 258 264 bit_vector) 2) (\<lambda>to_port.
     bindE (to_int (slice 264 270 bit_vector) 2) (\<lambda>to_starboard.
     bindE (subscript EPFD_TYPE epfd) (\<lambda>epfd_label.
     bindE (to_int (slice 274 278 bit_vector) 2) (\<lambda>month.
     bindE (to_int (slice 278 283 bit_vector) 2) (\<lambda>day.
     bindE (to_int (slice 283 288 bit_vector) 2) (\<lambda>hour.
     bindE (to_int (slice 288 294 bit_vector) 2) (\<lambda>minute.
     bindE (to_int (slice 294 302 bit_vector) 2) (\<lambda>draught.
     bindE (ascii6 (slice_from 302 bit_vector) True) (\<lambda>destination.
       Inr (Some
         [(''type'', PInt type),
          (''repeat'', PInt repeat),
          (''mmsi'', PInt mmsi),
          (''ais_version'', PInt ais_version),
          (''imo'', PInt imo),
          (''callsign'', PStr callsign),
          (''shipname'', PStr shipname),
          (''shiptype'', PTuple ship_type ship_type_label),
          (''to_bow'', PInt to_bow),
          (''to_stern'', PInt to_stern),
          (''to_port'', PInt to_port),
          (''to_starboard'', PInt to_starboard),
          (''epfd'', PTuple epfd epfd_label),
          (''month'', PInt month),
          (''day'', PInt day),
          (''hour'', PInt hour),
          (''minute'', PInt minute),
          (''draught'', PFloat (real_of_int draught / 10)),
          (''destination'', PStr destination)]))))))))))))))))))))))"

text \<open>The decoders of the types 6 to 17 and 19 to 24 have the body \<open>pass\<close>.\<close>

definition decode_msg_6 :: "string \<Rightarrow> error + message option" where
  "decode_msg_6 bit_vector = Inr None"

definition decode_msg_7 :: "string \<Rightarrow> error + message option" where
  "decode_msg_7 bit_vector = Inr None"

definition decode_msg_8 :: "string \<Rightarrow> error + message option" where
  "decode_msg_8 bit_vector = Inr None"

definition decode_msg_9 :: "string \<Rightarrow> error + message option" where
  "decode_msg_9 bit_vector = Inr None"

definition decode_msg_10 :: "string \<Rightarrow> error + message option" where
  "decode_msg_10 bit_vector = Inr None"

definition decode_msg_11 :: "string \<Rightarrow> error + message option" where
  "decode_msg_11 bit_vector = Inr None"

definition decode_msg_12 :: "string \<Rightarrow> error + message option" where
  "decode_msg_12 bit_vector = Inr None"

definition decode_msg_13 :: "string \<Rightarrow> error + message option" where
  "decode_msg_13 bit_vector = Inr None"

definition decode_msg_14 :: "string \<Rightarrow> error + message option" where
  "decode_msg_14 bit_vector = Inr None"

definition decode_msg_15 :: "string \<Rightarrow> error + message option" where
  "decode_msg_15 bit_vector = Inr None"

definition decode_msg_16 :: "string \<Rightarrow> error + message option" where
  "decode_msg_16 bit_vector = Inr None"

definition decode_msg_17 :: "string \<Rightarrow> error + message option" where
  "decode_msg_17 bit_vector = Inr None"

definition decode_msg_18 :: "string \<Rightarrow> error + message option" where
  "decode_msg_18 bit_vector =
     bindE (to_int (slice 0 6 bit_vector) 2) (\<lambda>type.
     bindE (to_int (slice 6 8 bit_vector) 2) (\<lambda>repeat.
     bindE (to_int (slice 8 38 bit_vector) 2) (\<lambda>mmsi.
     bindE (to_int (slice 46 55 bit_vector) 2) (\<lambda>speed.
     bindE (index bit_vector 55) (\<lambda>b55.
     bindE (to_int b55 2) (\<lambda>accuracy.
     bindE (signed (slice 56 85 bit_vector)) (\<lambda>lon.
     bindE (signed (slice 85 112 bit_vector)) (\<lambda>lat.
     bindE (to_int (slice 112 124 bit_vector) 2) (\<lambda>course.
     bindE (to_int (slice 124 133 bit_vector) 2) (\<lambda>heading.
     bindE (to_int (slice 133 139 bit_vector) 2) (\<lambda>second.
     bindE (to_int (slice 139 141 bit_vector) 2) (\<lambda>regional.
     bindE (index bit_vector 141) (\<lambda>b141.
     bindE (to_int b141 2) (\<lambda>cs.
     bindE (index bit_vector 142) (\<lambda>b142.
     bindE (to_int b142 2) (\<lambda>display.
     bindE (index bit_vector 143) (\<lambda>b143.
     bindE (to_int b143 2) (\<lambda>dsc.
     bindE (index bit_vector 144) (\<lambda>b144.
     bindE (to_int b144 2) (\<lambda>band.
     bindE (index bit_vector 145) (\<lambda>b145.
     bindE (to_int b145 2) (\<lambda>msg22.
     bindE (index bit_vector 146) (\<lambda>b146.
     bindE (to_int b146 2) (\<lambda>assigned.
     bindE (index bit_vector 147) (\<lambda>b147.
     bindE (to_int b147 2) (\<lambda>raim.
     bindE (to_int (slice_from 148 bit_vector) 2) (\<lambda>radio.
       Inr (Some
         [(''type'', PInt type),
          (''repeat'', PInt repeat),
          (''mmsi'', PInt mmsi),
          (''speed'', PInt speed),
          (''accuracy'', PBool (py_bool accuracy)),
          (''lon'', PFloat (real_of_int lon / 600000)),
          (''lat'', PFloat (real_of_int lat / 600000)),
          (''course'', PFloat (real_of_int course * (1 / 10))),
          (''heading'', PInt heading),
          (''second'', PInt second),
          (''regional'', PInt regional),
          (''cs'', PBool (py_bool cs)),
          (''display'', PBool (py_bool display)),
          (''dsc'', PBool (py_bool dsc)),
          (''band'', PBool (py_bool band)),
          (''msg22'', PBool (py_bool msg22)),
          (''assigned'', PBool (py_bool assigned)),
          (''raim'', PBool (py_bool raim)),
          (''radio'', PInt radio)]))))))))))))))))))))))))))))"

definition decode_msg_19 :: "string \<Rightarrow> error + message option" where
  "decode_msg_19 bit_vector = Inr None"

definition decode_msg_20 :: "string \<Rightarrow> error + message option" where
  "decode_msg_20 bit_vector = Inr None"

definition decode_msg_21 :: "string \<Rightarrow> error + message option" where
  "decode_msg_21 bit_vector = Inr None"

definition decode_msg_22 :: "string \<Rightarrow> error + message option" where
  "decode_msg_22 bit_vector = Inr None"

definition decode_msg_23 :: "string \<Rightarrow> error + message option" where
  "decode_msg_23 bit_vector = Inr None"

definition decode_msg_24 :: "string \<Rightarrow> error + message option" where
  "decode_msg_24 bit_vector = Inr None"

definition DECODE_MSG :: "(string \<Rightarrow> error + message option) option list" where
  "DECODE_MSG =
     [None,
      Some decode_msg_1,
      Some decode_msg_2,
      Some decode_msg_3,
      Some decode_msg_4,
      Some decode_msg_5,
      Some decode_msg_6,
      Some decode_msg_7,
      Some decode_msg_8,
      Some decode_msg_9,
      Some decode_msg_10,
      Some decode_msg_11,
      Some decode_msg_12,
      Some decode_msg_13,
      Some decode_msg_14,
      Some decode_msg_15,
      Some decode_msg_16,
      Some decode_msg_17,
      Some decode_msg_18,
      Some decode_msg_19,
      Some decode_msg_20,
      Some decode_msg_21,
      Some decode_msg_22,
      Some decode_msg_23,
      Some decode_msg_24]"

section \<open>The entry point\<close>

text \<open>
  \<open>msg.split(',')\<close> cuts at every comma, so a line with \<open>n\<close> commas has \<open>n + 1\<close> fields;
  unpacking into seven names raises \<open>ValueError\<close> for any other number.
\<close>

fun py_split :: "char \<Rightarrow> string \<Rightarrow> string list" where
  "py_split sep [] = [[]]"
| "py_split sep (c # rest) =
     (if c = sep then [] # py_split sep rest
      else (case py_split sep rest of
              [] \<Rightarrow> [[c]]
            | field # fields \<Rightarrow> (c # field) # fields))"

text \<open>The two lines the source prints, with their colour escapes.\<close>

definition invalid_checksum_text :: string where
  "invalid_checksum_text =
     CHR 0x1B # ''[31mInvalid Checksum dropping packet!'' @ CHR 0x1B # ''[0m''"

definition sentencing_text :: string where
  "sentencing_text =
     CHR 0x1B # ''[31mSentencing is not supported yet!'' @ CHR 0x1B # ''[0m''"

text \<open>
  The outcome of \<open>decode\<close> is an exception, or the lines printed together with the value
  returned (\<open>None\<close> or a dictionary). The statements are in the source's order: the payload
  is expanded and the type read before the checksum is compared.
\<close>

type_synonym outcome = "error + (string list \<times> message option)"

definition decode :: "string \<Rightarrow> outcome" where
  "decode msg =
     (let fields = py_split (CHR '','') msg in
      if length fields \<noteq> 7 then Inl (ValueError_unpack (length fields))
      else
        let n_sentences = fields ! 1;
            sentence_num = fields ! 2;
            data = fields ! 5;
            chcksum = fields ! 6;
            decoded_data = decode_ascii6 data
        in
        bindE (py_int 2 (slice 0 6 decoded_data)) (\<lambda>msg_type.
        bindE (py_int 16 (''0x'' @ slice_from 2 chcksum)) (\<lambda>declared.
          if checksum msg \<noteq> declared then Inr ([invalid_checksum_text], None)
          else if n_sentences \<noteq> ''1'' \<or> sentence_num \<noteq> ''1''
          then Inr ([sentencing_text], None)
          else if 0 < msg_type \<and> msg_type < 25
          then (case DECODE_MSG ! nat msg_type of
                  None \<Rightarrow> Inl TypeError
                | Some decoder \<Rightarrow> bindE (decoder decoded_data) (\<lambda>r. Inr ([], r)))
          else Inr ([], None))))"

section \<open>Notions of the specification\<close>

text \<open>
  The definitions of this section follow the words of the specification, not the source;
  the theorems below compare the source's functions with them.

  A fixed 6-bit big-endian group: the six low bits of the value, the most significant
  first.
\<close>

definition group6 :: "int \<Rightarrow> string" where
  "group6 v = map (\<lambda>i. if bit v i then CHR ''1'' else CHR ''0'') [5, 4, 3, 2, 1, 0]"

text \<open>
  The character of a packed-text chunk: the chunk as an unsigned integer, plus 64 when
  it is below 32, taken as an ASCII code point.
\<close>

definition sixbit_char :: "string \<Rightarrow> char" where
  "sixbit_char chunk = char_of (let c = bin_value chunk in if c < 32 then c + 64 else c)"

text \<open>
  A proof notion: an outcome that is not the \<open>ValueError\<close> of tuple unpacking. Every
  step of \<open>decode\<close> after the unpacking has such an outcome.
\<close>

definition unpack_free :: "error + 'a \<Rightarrow> bool" where
  "unpack_free r = (case r of Inl (ValueError_unpack n) \<Rightarrow> False | _ \<Rightarrow> True)"

section \<open>Binary literals\<close>

text \<open>On a text of binary digits, \<open>int(text, 2)\<close> is the number the digits denote.\<close>

lemma is_bit_not_space: "is_bit c \<Longrightarrow> \<not> is_space c"
  by (auto simp: is_bit_def is_space_def)

lemma is_bit_digit_value: "is_bit c \<Longrightarrow> digit_value c = Some (if c = CHR ''1'' then 1 else 0)"
  by (auto simp: is_bit_def digit_value_def)

lemma is_bit_is_digit: "is_bit c \<Longrightarrow> is_digit 2 c"
  by (auto simp: is_digit_def is_bit_digit_value)

lemma is_bit_not_special:
  "is_bit c \<Longrightarrow> c \<noteq> CHR ''_'' \<and> c \<noteq> CHR ''-'' \<and> c \<noteq> CHR ''+'' \<and> c \<noteq> CHR ''b'' \<and> c \<noteq> CHR ''B''"
  by (auto simp: is_bit_def)

lemma no_double_underscore: "\<forall>c\<in>set s. c \<noteq> CHR ''_'' \<Longrightarrow> \<not> double_underscore s"
  by (induction s rule: double_underscore.induct) auto

lemma digits_value_bits_acc:
  "list_all is_bit s \<Longrightarrow>
   foldl (\<lambda>a c. case digit_value c of None \<Rightarrow> a | Some d \<Rightarrow> a * int 2 + int d) a s =
   foldl (\<lambda>a c. 2 * a + (if c = CHR ''1'' then 1 else 0)) (a::int) s"
  by (induction s arbitrary: a) (auto simp: is_bit_digit_value mult.commute)

lemma digits_value_bits: "list_all is_bit s \<Longrightarrow> digits_value 2 s = bin_value s"
  unfolding digits_value_def bin_value_def by (rule digits_value_bits_acc)

lemma strip_prefix_bits: "list_all is_bit s \<Longrightarrow> strip_prefix 2 s = s"
  by (auto simp: strip_prefix_def base_letters_def is_bit_def split: list.splits)

lemma body_bits:
  assumes "list_all is_bit s"
  shows "takeWhile (\<lambda>c. is_digit 2 c \<or> c = CHR ''_'') s = s"
    and "dropWhile (\<lambda>c. is_digit 2 c \<or> c = CHR ''_'') s = []"
  using assms by (auto simp: list_all_iff is_bit_is_digit)

lemma py_int_bits:
  assumes "s \<noteq> []" and "list_all is_bit s"
  shows "py_int 2 s = Inr (bin_value s)"
proof -
  obtain c r where s: "s = c # r" using assms(1) by (cases s) auto
  have c: "is_bit c" using assms(2) s by simp
  have all: "\<forall>x\<in>set s. x \<noteq> CHR ''_''"
    using assms(2) is_bit_not_special by (auto simp: list_all_iff)
  have sp: "dropWhile is_space s = s"
    using c s is_bit_not_space by simp
  have sg: "strip_sign s = (False, s)"
    using c s is_bit_not_special [OF c] by (simp add: strip_sign_def)
  have l: "last s \<noteq> CHR ''_''" using all assms(1) last_in_set by blast
  have h: "hd s \<noteq> CHR ''_''" using all assms(1) hd_in_set by blast
  show ?thesis
    using assms l h no_double_underscore [OF all]
    by (simp add: py_int_def sp sg strip_prefix_bits body_bits digits_value_bits)
qed

lemma py_int_neg_bits:
  assumes "s \<noteq> []" and "list_all is_bit s"
  shows "py_int 2 (CHR ''-'' # s) = Inr (- bin_value s)"
proof -
  have all: "\<forall>x\<in>set s. x \<noteq> CHR ''_''"
    using assms(2) is_bit_not_special by (auto simp: list_all_iff)
  have sp: "\<not> is_space (CHR ''-'')"
    by (simp add: is_space_def)
  have sg: "strip_sign (CHR ''-'' # s) = (True, s)"
    by (simp add: strip_sign_def)
  have l: "last s \<noteq> CHR ''_''" using all assms(1) last_in_set by blast
  have h: "hd s \<noteq> CHR ''_''" using all assms(1) hd_in_set by blast
  show ?thesis
    using assms l h no_double_underscore [OF all]
    by (simp add: py_int_def sp sg strip_prefix_bits body_bits digits_value_bits)
qed

lemma to_int_bits: "list_all is_bit s \<Longrightarrow> to_int s 2 = Inr (bin_value s)"
  by (cases "s = []") (simp_all add: to_int_def py_int_bits bin_value_def)

lemma bin_value_acc_bounds:
  "0 \<le> (a::int) \<Longrightarrow>
   0 \<le> foldl (\<lambda>a c. 2 * a + (if c = CHR ''1'' then 1 else 0)) a s \<and>
   foldl (\<lambda>a c. 2 * a + (if c = CHR ''1'' then 1 else 0)) a s < (a + 1) * 2 ^ length s"
proof (induction s arbitrary: a)
  case Nil
  then show ?case by simp
next
  case (Cons c s)
  define b where "b = 2 * a + (if c = CHR ''1'' then 1 else (0::int))"
  have b0: "0 \<le> b" and b1: "b + 1 \<le> 2 * a + 2"
    using Cons.prems by (simp_all add: b_def)
  have step: "foldl (\<lambda>a c. 2 * a + (if c = CHR ''1'' then 1 else 0)) a (c # s) =
              foldl (\<lambda>a c. 2 * a + (if c = CHR ''1'' then 1 else 0)) b s"
    by (simp add: b_def)
  have "(b + 1) * 2 ^ length s \<le> (2 * a + 2) * 2 ^ length s"
    using b1 by (rule mult_right_mono) simp
  also have "\<dots> = (a + 1) * 2 ^ length (c # s)"
    by (simp add: algebra_simps)
  finally have le: "(b + 1) * 2 ^ length s \<le> (a + 1) * 2 ^ length (c # s)" .
  from Cons.IH [OF b0] le show ?case
    unfolding step by linarith
qed

lemma bin_value_bounds: "0 \<le> bin_value s \<and> bin_value s < 2 ^ length s"
  using bin_value_acc_bounds [of 0 s] by (simp add: bin_value_def)

section \<open>The armor decoder\<close>

lemma format_06b_group6_nat: "\<forall>n\<in>set [0..<64]. format_06b (int n) = group6 (int n)"
  by code_simp

lemma format_06b_group6: "0 \<le> v \<Longrightarrow> v \<le> 63 \<Longrightarrow> format_06b v = group6 v"
  using format_06b_group6_nat [rule_format, of "nat v"] by simp

lemma decode_ascii6_loop_concat:
  "decode_ascii6_loop data acc = acc @ concat (map (\<lambda>c. format_06b (armor_value c)) data)"
  by (induction data arbitrary: acc) simp_all

lemma decode_ascii6_concat:
  "decode_ascii6 data = concat (map (\<lambda>c. format_06b (armor_value c)) data)"
  by (simp add: decode_ascii6_def decode_ascii6_loop_concat)

lemma armor_value_alphabet:
  "48 \<le> py_ord c \<Longrightarrow> py_ord c \<le> 119 \<Longrightarrow> 0 \<le> armor_value c \<and> armor_value c \<le> 63"
  by (simp add: armor_value_def Let_def)

lemma length_group6: "length (group6 v) = 6"
  by (simp add: group6_def)

text \<open>
  Claim C7, as amended. For every armored payload whose characters have codes from 48 to
  119, \<open>decode_ascii6\<close> maps each character \<open>c\<close> to \<open>v = ord(c) - 48\<close>, less 8 when
  \<open>v > 40\<close>, and emits \<open>v\<close> as a 6-bit big-endian group; the result is the concatenation
  of the groups in input order, and its length is six times the number of characters.
  The restriction to the alphabet is needed: the format \<open>06b\<close> pads to six characters
  but does not truncate, so a character with a code of 120 or more gives seven or more
  digits, as the counterexample below shows for \<open>x\<close>.
\<close>

theorem decode_ascii6_alphabet:
  assumes "\<forall>c\<in>set data. 48 \<le> py_ord c \<and> py_ord c \<le> 119"
  shows "decode_ascii6 data =
           concat (map (\<lambda>c. let v = py_ord c - 48 in group6 (if v > 40 then v - 8 else v)) data)
         \<and> length (decode_ascii6 data) = 6 * length data"
proof -
  have g: "\<And>c. c \<in> set data \<Longrightarrow>
             format_06b (armor_value c) =
             (let v = py_ord c - 48 in group6 (if v > 40 then v - 8 else v))"
  proof -
    fix c assume "c \<in> set data"
    then have "0 \<le> armor_value c \<and> armor_value c \<le> 63"
      using assms armor_value_alphabet by blast
    then have "format_06b (armor_value c) = group6 (armor_value c)"
      by (simp add: format_06b_group6)
    then show "format_06b (armor_value c) =
             (let v = py_ord c - 48 in group6 (if v > 40 then v - 8 else v))"
      by (simp add: armor_value_def Let_def)
  qed
  have eq: "decode_ascii6 data =
           concat (map (\<lambda>c. let v = py_ord c - 48 in group6 (if v > 40 then v - 8 else v)) data)"
    unfolding decode_ascii6_concat using g by (auto intro!: arg_cong [where f = concat])
  have len: "length (concat (map (\<lambda>c. let v = py_ord c - 48 in group6 (if v > 40 then v - 8 else v)) data))
               = 6 * length data"
    by (induction data) (simp_all add: Let_def length_group6)
  show ?thesis using eq len by simp
qed

theorem decode_ascii6_alphabet_witness:
  "list_all (\<lambda>c. 48 \<le> py_ord c \<and> py_ord c \<le> 119) ''15M67FC000G?ufbE`FepT@3n00Sa''
   \<and> length (decode_ascii6 ''15M67FC000G?ufbE`FepT@3n00Sa'') = 168"
proof -
  have h: "\<forall>c\<in>set ''15M67FC000G?ufbE`FepT@3n00Sa''. 48 \<le> py_ord c \<and> py_ord c \<le> 119"
    by (simp add: py_ord_def)
  have l: "6 * length ''15M67FC000G?ufbE`FepT@3n00Sa'' = (168::nat)"
    by simp
  show ?thesis
    using h decode_ascii6_alphabet [OF h, THEN conjunct2] unfolding l list_all_iff by blast
qed

theorem decode_ascii6_width_counterexample:
  "decode_ascii6 ''x'' = ''1000000'' \<and> length (decode_ascii6 ''x'') \<noteq> 6 * length ''x''"
  by (simp add: decode_ascii6_def armor_value_def py_ord_def format_06b_def bin_digits.simps
      bit_char_def)


section \<open>The packed-text decoder\<close>

lemma split_str_chunks:
  assumes "list_all is_bit data" and "c \<in> set (split_str data 6)"
  shows "c \<noteq> [] \<and> list_all is_bit c \<and> length c \<le> 6"
proof -
  from assms(2) have "\<exists>i. i < (5 + length data) div 6 \<and> c = slice (i * 6) (6 + i * 6) data"
    by (auto simp: split_str_def)
  then obtain i where i: "i < (5 + length data) div 6"
    and c: "c = slice (i * 6) (6 + i * 6) data"
    by blast
  have lt: "i * 6 < length data" using i by arith
  have c': "c = take 6 (drop (i * 6) data)" using c by (simp add: slice_def)
  have ne: "c \<noteq> []" using lt c' by simp
  have "set c \<subseteq> set data" unfolding c' by (meson set_take_subset set_drop_subset subset_trans)
  then have bits: "list_all is_bit c" using assms(1) by (auto simp: list_all_iff)
  show ?thesis using ne bits c' by simp
qed

lemma chunk_char:
  assumes "c \<noteq> []" "list_all is_bit c" "length c \<le> 6"
  shows "bindE (py_int 2 c) (\<lambda>c. bindE (py_chr (if c < 32 then c + 64 else c)) k)
         = k (sixbit_char c)"
proof -
  have b: "0 \<le> bin_value c \<and> bin_value c < 2 ^ length c" by (rule bin_value_bounds)
  have "(2::int) ^ length c \<le> 2 ^ 6" using assms(3) by (intro power_increasing) simp_all
  then have "bin_value c < 64" using b by simp
  then show ?thesis using b assms
    by (simp add: py_int_bits bindE_def py_chr_def sixbit_char_def Let_def)
qed

lemma ascii6_loop_bits:
  assumes "\<forall>c\<in>set chunks. c \<noteq> [] \<and> list_all is_bit c \<and> length c \<le> 6"
  shows "ascii6_loop ign chunks acc =
         Inr (acc @ (if ign then takeWhile (\<lambda>c. c \<noteq> CHR ''@'') (map sixbit_char chunks)
                     else map sixbit_char chunks))"
  using assms
proof (induction chunks arbitrary: acc)
  case Nil
  then show ?case by simp
next
  case (Cons c chunks)
  then have c: "c \<noteq> []" "list_all is_bit c" "length c \<le> 6" by simp_all
  have IH: "\<And>acc. ascii6_loop ign chunks acc =
         Inr (acc @ (if ign then takeWhile (\<lambda>c. c \<noteq> CHR ''@'') (map sixbit_char chunks)
                     else map sixbit_char chunks))"
    using Cons by simp
  show ?case
    by (simp add: chunk_char [OF c] IH)
qed

text \<open>
  Claim C8. For every bit range (a text of binary digits), \<open>ascii6\<close> splits it into 6-bit
  chunks and reads each chunk as an unsigned integer \<open>c\<close>, adds 64 when \<open>c < 32\<close>, and
  takes the result as a character. With filler-stripping it returns the characters before
  the first chunk that decodes to \<open>@\<close>, so nothing at or after that chunk; without it,
  the characters of all chunks. It never raises on such an input.
\<close>

theorem ascii6_decodes:
  assumes "list_all is_bit data"
  shows "ascii6 data strip =
         Inr (if strip
              then takeWhile (\<lambda>c. c \<noteq> CHR ''@'') (map sixbit_char (split_str data 6))
              else map sixbit_char (split_str data 6))"
  unfolding ascii6_def
  using ascii6_loop_bits [of "split_str data 6" strip "[]"] split_str_chunks [OF assms]
  by simp

theorem ascii6_decodes_witness:
  "list_all is_bit ''001000001001000000000001''
   \<and> ascii6 ''001000001001000000000001'' True = Inr ''HI''
   \<and> ascii6 ''001000001001000000000001'' False = Inr ''HI@A''"
proof -
  have h: "list_all is_bit ''001000001001000000000001''"
    by (simp add: is_bit_def)
  have e: "map sixbit_char (split_str ''001000001001000000000001'' 6) = ''HI@A''"
    by code_simp
  show ?thesis
    using h ascii6_decodes [OF h, of True] ascii6_decodes [OF h, of False]
    by (simp add: e)
qed

section \<open>The steps of the entry point\<close>

lemma bindE_simps [simp]:
  "bindE (Inl e) f = Inl e"
  "bindE (Inr x) f = f x"
  by (simp_all add: bindE_def)

lemma py_int_empty: "py_int base [] = Inl (ValueError_literal base [])"
  by (simp add: py_int_def strip_sign_def strip_prefix_def)

lemma replicate_zero_bits: "list_all is_bit (replicate n (CHR ''0''))"
  by (simp add: list_all_iff is_bit_def)

lemma bin_digits_bits: "bin_digits n \<noteq> [] \<and> list_all is_bit (bin_digits n)"
proof (induction n rule: bin_digits.induct)
  case (1 n)
  show ?case
  proof (cases "n < 2")
    case True
    then show ?thesis by (simp add: bin_digits.simps [of n] bit_char_def is_bit_def)
  next
    case False
    then show ?thesis using 1
      by (simp add: bin_digits.simps [of n] bit_char_def is_bit_def)
  qed
qed

text \<open>
  The first six characters of a formatted group are a binary literal, with a sign when
  the value is negative: the type code can be read from any non-empty payload.
\<close>

lemma format_06b_first_six:
  "6 \<le> length (format_06b v) \<and> (\<exists>t. py_int 2 (take 6 (format_06b v)) = Inr t)"
proof -
  define ds where "ds = bin_digits (nat \<bar>v\<bar>)"
  have ds: "ds \<noteq> []" "list_all is_bit ds"
    using bin_digits_bits [of "nat \<bar>v\<bar>"] by (simp_all add: ds_def)
  show ?thesis
  proof (cases "v < 0")
    case False
    define body where "body = replicate (6 - length ds) (CHR ''0'') @ ds"
    have f: "format_06b v = body"
      using False by (simp add: format_06b_def Let_def ds_def body_def)
    have len: "6 \<le> length body" by (simp add: body_def)
    have bits: "list_all is_bit body"
      using ds by (simp add: body_def replicate_zero_bits)
    have "take 6 body \<noteq> []" using len by auto
    moreover have "list_all is_bit (take 6 body)"
      using bits by (auto simp: list_all_iff dest: in_set_takeD)
    ultimately have "py_int 2 (take 6 body) = Inr (bin_value (take 6 body))"
      by (rule py_int_bits)
    then show ?thesis using f len by auto
  next
    case True
    define body where "body = replicate (5 - length ds) (CHR ''0'') @ ds"
    have f: "format_06b v = CHR ''-'' # body"
      using True by (simp add: format_06b_def Let_def ds_def body_def)
    have len: "5 \<le> length body" by (simp add: body_def)
    have bits: "list_all is_bit body"
      using ds by (simp add: body_def replicate_zero_bits)
    have "take 5 body \<noteq> []" using len by auto
    moreover have "list_all is_bit (take 5 body)"
      using bits by (auto simp: list_all_iff dest: in_set_takeD)
    ultimately have "py_int 2 (CHR ''-'' # take 5 body) = Inr (- bin_value (take 5 body))"
      by (rule py_int_neg_bits)
    moreover have "take 6 (CHR ''-'' # body) = CHR ''-'' # take 5 body"
      by (simp add: take_Cons')
    ultimately show ?thesis using f len by auto
  qed
qed

lemma type_extraction:
  assumes "data \<noteq> []"
  shows "\<exists>t. py_int 2 (slice 0 6 (decode_ascii6 data)) = Inr t"
proof -
  obtain c cs where d: "data = c # cs" using assms by (cases data) auto
  have "slice 0 6 (decode_ascii6 data) = take 6 (format_06b (armor_value c))"
    using format_06b_first_six [of "armor_value c"]
    by (simp add: d decode_ascii6_concat slice_def)
  then show ?thesis using format_06b_first_six [of "armor_value c"] by simp
qed

lemma decode_seven:
  assumes "length (py_split (CHR '','') msg) = 7"
  shows "decode msg =
     bindE (py_int 2 (slice 0 6 (decode_ascii6 (py_split (CHR '','') msg ! 5)))) (\<lambda>msg_type.
     bindE (py_int 16 (''0x'' @ slice_from 2 (py_split (CHR '','') msg ! 6))) (\<lambda>declared.
       if checksum msg \<noteq> declared then Inr ([invalid_checksum_text], None)
       else if py_split (CHR '','') msg ! 1 \<noteq> ''1'' \<or> py_split (CHR '','') msg ! 2 \<noteq> ''1''
       then Inr ([sentencing_text], None)
       else if 0 < msg_type \<and> msg_type < 25
       then (case DECODE_MSG ! nat msg_type of
               None \<Rightarrow> Inl TypeError
             | Some decoder \<Rightarrow> bindE (decoder (decode_ascii6 (py_split (CHR '','') msg ! 5)))
                                 (\<lambda>r. Inr ([], r)))
       else Inr ([], None)))"
  unfolding decode_def Let_def using assms by (simp only: simp_thms if_False)

text \<open>
  Claim C10. For every input line whose sixth comma-separated field, the armored payload,
  is empty, \<open>decode\<close> raises: with seven fields the type extraction \<open>int('', 2)\<close> raises
  \<open>ValueError\<close> before the checksum and the fragment fields are looked at, whatever they
  are; with another number of fields the unpacking has raised already.
\<close>

theorem decode_empty_payload_raises:
  assumes "6 \<le> length (py_split (CHR '','') msg)"
    and "py_split (CHR '','') msg ! 5 = []"
  shows "decode msg =
         Inl (if length (py_split (CHR '','') msg) = 7 then ValueError_literal 2 []
              else ValueError_unpack (length (py_split (CHR '','') msg)))"
proof (cases "length (py_split (CHR '','') msg) = 7")
  case True
  then show ?thesis
    using assms(2)
    by (simp add: decode_seven decode_ascii6_def slice_def py_int_empty)
next
  case False
  then show ?thesis by (simp add: decode_def Let_def)
qed

theorem decode_empty_payload_raises_witness:
  "6 \<le> length (py_split (CHR '','') ''!AIVDM,2,1,,B,,0*00'')
   \<and> py_split (CHR '','') ''!AIVDM,2,1,,B,,0*00'' ! 5 = []
   \<and> checksum ''!AIVDM,2,1,,B,,0*00'' \<noteq> 0
   \<and> decode ''!AIVDM,2,1,,B,,0*00'' = Inl (ValueError_literal 2 [])"
proof -
  have s: "py_split (CHR '','') ''!AIVDM,2,1,,B,,0*00'' = [''!AIVDM'', ''2'', ''1'', [], ''B'', [], ''0*00'']"
    by simp
  have c: "checksum ''!AIVDM,2,1,,B,,0*00'' \<noteq> 0"
    by (simp add: checksum_def slice_from_def py_ord_def)
  show ?thesis
    using decode_empty_payload_raises [of "''!AIVDM,2,1,,B,,0*00''"] c
    unfolding s by simp
qed

section \<open>The checks of the entry point\<close>

text \<open>
  Claim C2, as amended. For every input line with seven fields and a non-empty payload
  whose declared checksum (the text after the first two characters of the last field,
  read as a hexadecimal number) differs from the exclusive or computed over the line,
  \<open>decode\<close> prints the invalid-checksum line and returns \<open>None\<close>, never a decoded message.
  The check is not the first step: the payload is expanded and the type read before it,
  which is why the payload must be non-empty; with an empty payload \<open>decode\<close> raises
  instead, as the counterexample below shows.
\<close>

theorem decode_checksum_mismatch:
  assumes "length (py_split (CHR '','') msg) = 7"
    and "py_split (CHR '','') msg ! 5 \<noteq> []"
    and "py_int 16 (''0x'' @ slice_from 2 (py_split (CHR '','') msg ! 6)) = Inr declared"
    and "checksum msg \<noteq> declared"
  shows "decode msg = Inr ([invalid_checksum_text], None)"
proof -
  obtain t where "py_int 2 (slice 0 6 (decode_ascii6 (py_split (CHR '','') msg ! 5))) = Inr t"
    using type_extraction [OF assms(2)] by blast
  then show ?thesis
    using assms(3,4) by (simp add: decode_seven [OF assms(1)])
qed

theorem decode_checksum_mismatch_witness:
  "length (py_split (CHR '','') ''!AIVDM,1,1,,B,15M67FC000G?ufbE`FepT@3n00Sa,0*5D'') = 7
   \<and> py_split (CHR '','') ''!AIVDM,1,1,,B,15M67FC000G?ufbE`FepT@3n00Sa,0*5D'' ! 5 \<noteq> []
   \<and> py_int 16 (''0x'' @ slice_from 2
        (py_split (CHR '','') ''!AIVDM,1,1,,B,15M67FC000G?ufbE`FepT@3n00Sa,0*5D'' ! 6)) = Inr 93
   \<and> checksum ''!AIVDM,1,1,,B,15M67FC000G?ufbE`FepT@3n00Sa,0*5D'' = 92
   \<and> decode ''!AIVDM,1,1,,B,15M67FC000G?ufbE`FepT@3n00Sa,0*5D''
       = Inr ([invalid_checksum_text], None)"
proof -
  let ?msg = "''!AIVDM,1,1,,B,15M67FC000G?ufbE`FepT@3n00Sa,0*5D''"
  have s: "py_split (CHR '','') ?msg =
           [''!AIVDM'', ''1'', ''1'', [], ''B'', ''15M67FC000G?ufbE`FepT@3n00Sa'', ''0*5D'']"
    by simp
  have h: "py_int 16 (''0x'' @ slice_from 2 (py_split (CHR '','') ?msg ! 6)) = Inr 93"
    unfolding s
    by (simp add: slice_from_def py_int_def strip_sign_def strip_prefix_def is_space_def
        is_digit_def digit_value_def base_letters_def digits_value_def)
  have c: "checksum ?msg = 92"
    by (simp add: checksum_def slice_from_def py_ord_def)
  have l: "length (py_split (CHR '','') ?msg) = 7" and p: "py_split (CHR '','') ?msg ! 5 \<noteq> []"
    unfolding s by simp_all
  have "decode ?msg = Inr ([invalid_checksum_text], None)"
    by (rule decode_checksum_mismatch [OF l p h]) (simp add: c)
  then show ?thesis using l p h c by blast
qed

theorem decode_checksum_order_counterexample:
  "length (py_split (CHR '','') ''!AIVDM,1,1,,B,,0*00'') = 7
   \<and> py_int 16 (''0x'' @ slice_from 2 (py_split (CHR '','') ''!AIVDM,1,1,,B,,0*00'' ! 6)) = Inr 0
   \<and> checksum ''!AIVDM,1,1,,B,,0*00'' = 37
   \<and> decode ''!AIVDM,1,1,,B,,0*00'' = Inl (ValueError_literal 2 [])"
proof -
  let ?msg = "''!AIVDM,1,1,,B,,0*00''"
  have s: "py_split (CHR '','') ?msg = [''!AIVDM'', ''1'', ''1'', [], ''B'', [], ''0*00'']"
    by simp
  have h: "py_int 16 (''0x'' @ slice_from 2 (py_split (CHR '','') ?msg ! 6)) = Inr 0"
    unfolding s
    by (simp add: slice_from_def py_int_def strip_sign_def strip_prefix_def is_space_def
        is_digit_def digit_value_def base_letters_def digits_value_def)
  have c: "checksum ?msg = 37"
    by (simp add: checksum_def slice_from_def py_ord_def)
  have l: "length (py_split (CHR '','') ?msg) = 7"
    unfolding s by simp
  have d: "decode ?msg = Inl (ValueError_literal 2 [])"
    unfolding decode_seven [OF l] unfolding s
    by (simp add: decode_ascii6_def slice_def py_int_empty)
  show ?thesis using l h c d by blast
qed

text \<open>
  Claim C5, as amended. For every input line with seven fields, a non-empty payload and
  a declared checksum equal to the computed one, whose fragment count or fragment index
  differs from \<open>1\<close>, \<open>decode\<close> prints that sentencing is not supported and returns
  \<open>None\<close>: the sentence is dropped and no decoded message is produced. The payload must
  be non-empty: the type is read from it before the checksum and the fragment fields are
  compared, so a line that has seven fields, a matching checksum and the fragment count
  \<open>2\<close>, but an empty payload, raises instead, as the counterexample below shows.
\<close>

theorem decode_fragmented:
  assumes "length (py_split (CHR '','') msg) = 7"
    and "py_split (CHR '','') msg ! 5 \<noteq> []"
    and "py_int 16 (''0x'' @ slice_from 2 (py_split (CHR '','') msg ! 6)) = Inr (checksum msg)"
    and "py_split (CHR '','') msg ! 1 \<noteq> ''1'' \<or> py_split (CHR '','') msg ! 2 \<noteq> ''1''"
  shows "decode msg = Inr ([sentencing_text], None)"
proof -
  obtain t where "py_int 2 (slice 0 6 (decode_ascii6 (py_split (CHR '','') msg ! 5))) = Inr t"
    using type_extraction [OF assms(2)] by blast
  then show ?thesis
    using assms(3,4) by (simp add: decode_seven [OF assms(1)] del: One_nat_def)
qed

theorem decode_fragmented_witness:
  "length (py_split (CHR '','') ''!AIVDM,2,1,,B,15M67FC000G?ufbE`FepT@3n00Sa,0*5F'') = 7
   \<and> py_split (CHR '','') ''!AIVDM,2,1,,B,15M67FC000G?ufbE`FepT@3n00Sa,0*5F'' ! 1 = ''2''
   \<and> checksum ''!AIVDM,2,1,,B,15M67FC000G?ufbE`FepT@3n00Sa,0*5F'' = 95
   \<and> decode ''!AIVDM,2,1,,B,15M67FC000G?ufbE`FepT@3n00Sa,0*5F''
       = Inr ([sentencing_text], None)"
proof -
  let ?msg = "''!AIVDM,2,1,,B,15M67FC000G?ufbE`FepT@3n00Sa,0*5F''"
  have s: "py_split (CHR '','') ?msg =
           [''!AIVDM'', ''2'', ''1'', [], ''B'', ''15M67FC000G?ufbE`FepT@3n00Sa'', ''0*5F'']"
    by simp
  have c: "checksum ?msg = 95"
    by (simp add: checksum_def slice_from_def py_ord_def)
  have h: "py_int 16 (''0x'' @ slice_from 2 (py_split (CHR '','') ?msg ! 6)) = Inr (checksum ?msg)"
    unfolding s c
    by (simp add: slice_from_def py_int_def strip_sign_def strip_prefix_def is_space_def
        is_digit_def digit_value_def base_letters_def digits_value_def)
  have l: "length (py_split (CHR '','') ?msg) = 7" and p: "py_split (CHR '','') ?msg ! 5 \<noteq> []"
    and f: "py_split (CHR '','') ?msg ! 1 = ''2''"
    unfolding s by simp_all
  have "decode ?msg = Inr ([sentencing_text], None)"
    by (rule decode_fragmented [OF l p h]) (simp add: f)
  then show ?thesis using l f c by blast
qed

theorem decode_fragmented_empty_payload_counterexample:
  "length (py_split (CHR '','') ''!AIVDM,2,1,,B,,0*26'') = 7
   \<and> py_int 16 (''0x'' @ slice_from 2 (py_split (CHR '','') ''!AIVDM,2,1,,B,,0*26'' ! 6)) = Inr 38
   \<and> checksum ''!AIVDM,2,1,,B,,0*26'' = 38
   \<and> py_split (CHR '','') ''!AIVDM,2,1,,B,,0*26'' ! 1 = ''2''
   \<and> decode ''!AIVDM,2,1,,B,,0*26'' = Inl (ValueError_literal 2 [])"
proof -
  let ?msg = "''!AIVDM,2,1,,B,,0*26''"
  have s: "py_split (CHR '','') ?msg = [''!AIVDM'', ''2'', ''1'', [], ''B'', [], ''0*26'']"
    by simp
  have h: "py_int 16 (''0x'' @ slice_from 2 (py_split (CHR '','') ?msg ! 6)) = Inr 38"
    unfolding s
    by (simp add: slice_from_def py_int_def strip_sign_def strip_prefix_def is_space_def
        is_digit_def digit_value_def base_letters_def digits_value_def)
  have c: "checksum ?msg = 38"
    by (simp add: checksum_def slice_from_def py_ord_def)
  have l: "length (py_split (CHR '','') ?msg) = 7"
    and f: "py_split (CHR '','') ?msg ! 1 = ''2''"
    unfolding s by simp_all
  have d: "decode ?msg = Inl (ValueError_literal 2 [])"
    unfolding decode_seven [OF l] unfolding s
    by (simp add: decode_ascii6_def slice_def py_int_empty)
  show ?thesis using l h c f d by blast
qed

section \<open>The dispatch\<close>

lemma unpack_free_Inr [simp]: "unpack_free (Inr x)"
  by (simp add: unpack_free_def)

lemma unpack_free_Inl [simp]: "unpack_free (Inl e) = (\<forall>n. e \<noteq> ValueError_unpack n)"
  by (cases e) (simp_all add: unpack_free_def)

lemma unpack_free_bindE:
  "unpack_free m \<Longrightarrow> (\<And>x. unpack_free (f x)) \<Longrightarrow> unpack_free (bindE m f)"
  by (cases m) simp_all

lemma unpack_free_py_int [simp]: "unpack_free (py_int base s)"
  by (simp add: py_int_def Let_def split: prod.split)

lemma unpack_free_to_int [simp]: "unpack_free (to_int s base)"
  by (simp add: to_int_def)

lemma unpack_free_signed [simp]: "unpack_free (signed s)"
  by (simp add: signed_def)

lemma unpack_free_index [simp]: "unpack_free (index s i)"
  by (simp add: index_def)

lemma unpack_free_subscript [simp]: "unpack_free (subscript table k)"
  by (simp add: subscript_def split: option.split)

lemma unpack_free_py_chr [simp]: "unpack_free (py_chr n)"
  by (simp add: py_chr_def)

lemma unpack_free_ascii6_loop: "unpack_free (ascii6_loop ign chunks acc)"
proof (induction chunks arbitrary: acc)
  case Nil
  then show ?case by simp
next
  case (Cons c chunks)
  show ?case
    unfolding ascii6_loop.simps
    by (intro unpack_free_bindE) (simp_all add: Cons.IH)
qed

lemma unpack_free_ascii6 [simp]: "unpack_free (ascii6 data ign)"
  by (simp add: ascii6_def unpack_free_ascii6_loop)

lemma unpack_free_decode_msg_1: "unpack_free (decode_msg_1 bv)"
  unfolding decode_msg_1_def by (intro unpack_free_bindE) simp_all

lemma unpack_free_decode_msg_4: "unpack_free (decode_msg_4 bv)"
  unfolding decode_msg_4_def by (intro unpack_free_bindE) simp_all

lemma unpack_free_decode_msg_5: "unpack_free (decode_msg_5 bv)"
  unfolding decode_msg_5_def by (intro unpack_free_bindE) simp_all

lemma unpack_free_decode_msg_18: "unpack_free (decode_msg_18 bv)"
  unfolding decode_msg_18_def by (intro unpack_free_bindE) simp_all

lemmas stub_defs =
  decode_msg_6_def decode_msg_7_def decode_msg_8_def decode_msg_9_def decode_msg_10_def
  decode_msg_11_def decode_msg_12_def decode_msg_13_def decode_msg_14_def decode_msg_15_def
  decode_msg_16_def decode_msg_17_def decode_msg_19_def decode_msg_20_def decode_msg_21_def
  decode_msg_22_def decode_msg_23_def decode_msg_24_def

lemma index_cases:
  "(n::nat) < 25 \<Longrightarrow> 0 < n \<Longrightarrow>
   n \<in> {1, 2, 3, 4, 5, 6, 7, 8, 9, 10, 11, 12, 13, 14, 15, 16, 17, 18, 19, 20, 21, 22, 23, 24}"
  by (simp add: eval_nat_numeral less_Suc_eq)

lemma type_code_cases:
  assumes "0 < (t::int)" and "t < 25"
  shows "nat t \<in> {1, 2, 3, 4, 5, 6, 7, 8, 9, 10, 11, 12, 13, 14, 15, 16, 17, 18, 19, 20,
                   21, 22, 23, 24}"
  using assms by (intro index_cases) simp_all

lemma DECODE_MSG_unpack_free:
  assumes "0 < t" and "t < 25"
  shows "\<exists>d. DECODE_MSG ! nat t = Some d \<and> (\<forall>bv. unpack_free (d bv))"
  using type_code_cases [OF assms]
  by (auto simp: DECODE_MSG_def stub_defs decode_msg_2_def decode_msg_3_def
      unpack_free_decode_msg_1 unpack_free_decode_msg_4 unpack_free_decode_msg_5
      unpack_free_decode_msg_18)

lemma DECODE_MSG_stub:
  assumes "t \<in> {6..17} \<union> {19..24}"
  shows "\<exists>d. DECODE_MSG ! nat t = Some d \<and> (\<forall>bv. d bv = Inr None)"
proof -
  have "0 < t" "t < 25" "t \<noteq> 1" "t \<noteq> 2" "t \<noteq> 3" "t \<noteq> 4" "t \<noteq> 5" "t \<noteq> 18"
    using assms by auto
  then show ?thesis
    using type_code_cases [of t]
    by (auto simp: DECODE_MSG_def stub_defs)
qed

lemma unpack_free_decode:
  assumes "length (py_split (CHR '','') msg) = 7"
  shows "unpack_free (decode msg)"
  unfolding decode_seven [OF assms]
proof (intro unpack_free_bindE unpack_free_py_int)
  fix t declared
  show "unpack_free
          (if checksum msg \<noteq> declared then Inr ([invalid_checksum_text], None)
           else if py_split (CHR '','') msg ! 1 \<noteq> ''1'' \<or> py_split (CHR '','') msg ! 2 \<noteq> ''1''
           then Inr ([sentencing_text], None)
           else if 0 < t \<and> t < 25
           then (case DECODE_MSG ! nat t of
                   None \<Rightarrow> Inl TypeError
                 | Some decoder \<Rightarrow> bindE (decoder (decode_ascii6 (py_split (CHR '','') msg ! 5)))
                                     (\<lambda>r. Inr ([], r)))
           else Inr ([], None))"
  proof (cases "0 < t \<and> t < 25")
    case True
    then obtain d where d: "DECODE_MSG ! nat t = Some d" "\<And>bv. unpack_free (d bv)"
      using DECODE_MSG_unpack_free [of t] by blast
    have "unpack_free (bindE (d (decode_ascii6 (py_split (CHR '','') msg ! 5))) (\<lambda>r. Inr ([], r)))"
      by (intro unpack_free_bindE d(2)) simp
    then show ?thesis using True d(1) by auto
  next
    case False
    then show ?thesis by auto
  qed
qed

text \<open>
  Claim C6. \<open>decode\<close> splits the line at every comma and fails with the \<open>ValueError\<close>
  of the unpacking (the specification's malformed sentence) if and only if the number
  of fields is not seven; with seven fields it goes on to the later steps, none of
  which ends in that failure.
\<close>

theorem decode_unpack_iff:
  "decode msg = Inl (ValueError_unpack n) \<longleftrightarrow>
   length (py_split (CHR '','') msg) = n \<and> n \<noteq> 7"
proof (cases "length (py_split (CHR '','') msg) = 7")
  case True
  have "unpack_free (decode msg)" by (rule unpack_free_decode [OF True])
  then have "decode msg \<noteq> Inl (ValueError_unpack n)"
    by (auto simp: unpack_free_def)
  then show ?thesis using True by auto
next
  case False
  then show ?thesis by (auto simp: decode_def Let_def)
qed

theorem decode_unpack_iff_witness:
  "decode ''!AIVDM,1,1,,B'' = Inl (ValueError_unpack 5)
   \<and> decode ''!AIVDM,1,1,,B,15M67FC000G?ufbE`FepT@3n00Sa,0*5C,'' = Inl (ValueError_unpack 8)
   \<and> decode ''!AIVDM,1,1,,B,15M67FC000G?ufbE`FepT@3n00Sa,0*5C'' \<noteq> Inl (ValueError_unpack 7)"
proof -
  have a: "length (py_split (CHR '','') ''!AIVDM,1,1,,B'') = 5"
    by simp
  have b: "length (py_split (CHR '','') ''!AIVDM,1,1,,B,15M67FC000G?ufbE`FepT@3n00Sa,0*5C,'') = 8"
    by simp
  show ?thesis
    using decode_unpack_iff [of "''!AIVDM,1,1,,B''" 5]
      decode_unpack_iff [of "''!AIVDM,1,1,,B,15M67FC000G?ufbE`FepT@3n00Sa,0*5C,''" 8]
      decode_unpack_iff [of "''!AIVDM,1,1,,B,15M67FC000G?ufbE`FepT@3n00Sa,0*5C''" 7]
    unfolding a b by simp
qed

text \<open>
  The outcome of the dispatch for a type without a decoder and for a type outside the
  table: in both cases \<open>None\<close>, nothing printed, nothing raised.
\<close>

lemma decode_none_outcome:
  assumes "length (py_split (CHR '','') msg) = 7"
    and "py_int 2 (slice 0 6 (decode_ascii6 (py_split (CHR '','') msg ! 5))) = Inr t"
    and "py_int 16 (''0x'' @ slice_from 2 (py_split (CHR '','') msg ! 6)) = Inr (checksum msg)"
    and "py_split (CHR '','') msg ! 1 = ''1''"
    and "py_split (CHR '','') msg ! 2 = ''1''"
    and "t \<in> {6..17} \<union> {19..24} \<or> t \<le> 0 \<or> 25 \<le> t"
  shows "decode msg = Inr ([], None)"
proof (cases "t \<in> {6..17} \<union> {19..24}")
  case True
  then obtain d where d: "DECODE_MSG ! nat t = Some d" "\<And>bv. d bv = Inr None"
    using DECODE_MSG_stub [of t] by blast
  have "0 < t \<and> t < 25" using True by auto
  then show ?thesis
    using assms(2-5) d by (simp add: decode_seven [OF assms(1)] del: One_nat_def)
next
  case False
  then have "\<not> (0 < t \<and> t < 25)" using assms(6) by auto
  then show ?thesis
    using assms(2-5) by (auto simp add: decode_seven [OF assms(1)] simp del: One_nat_def)
qed

text \<open>
  Claim C3, as amended. For every input line that passes the earlier steps (seven fields,
  a readable type, a matching checksum, fragment count and index \<open>1\<close>) and whose type
  code is in 6..17 or 19..24, \<open>decode\<close> returns \<open>None\<close>: it prints nothing, raises
  nothing and builds no record. The outcome does not carry the type code, and it is the
  very outcome of a type code that is 0 (or below) or greater than 24: the source has
  no separate outcomes for a type without a decoder and for an unknown type.
\<close>

theorem decode_unimplemented_type:
  assumes "length (py_split (CHR '','') msg) = 7"
    and "py_int 2 (slice 0 6 (decode_ascii6 (py_split (CHR '','') msg ! 5))) = Inr t"
    and "py_int 16 (''0x'' @ slice_from 2 (py_split (CHR '','') msg ! 6)) = Inr (checksum msg)"
    and "py_split (CHR '','') msg ! 1 = ''1''"
    and "py_split (CHR '','') msg ! 2 = ''1''"
    and "t \<in> {6..17} \<union> {19..24} \<or> t \<le> 0 \<or> 25 \<le> t"
  shows "decode msg = Inr ([], None)"
  using assms by (rule decode_none_outcome)

lemma hex_eval:
  "py_int 16 ''0x10'' = Inr 16" "py_int 16 ''0x11'' = Inr 17" "py_int 16 ''0x16'' = Inr 22"
  by (simp_all add: py_int_def strip_sign_def strip_prefix_def is_space_def
        is_digit_def digit_value_def base_letters_def digits_value_def)

lemma type_eval:
  "py_int 2 (slice 0 6 (decode_ascii6 ''6'')) = Inr 6"
  "py_int 2 (slice 0 6 (decode_ascii6 ''7'')) = Inr 7"
  "py_int 2 (slice 0 6 (decode_ascii6 ''0'')) = Inr 0"
  by code_simp+

lemma line_6:
  "py_split (CHR '','') ''!AIVDM,1,1,,A,6,0*10'' = [''!AIVDM'', ''1'', ''1'', [], ''A'', ''6'', ''0*10'']"
  "checksum ''!AIVDM,1,1,,A,6,0*10'' = 16"
  by (simp_all add: checksum_def slice_from_def py_ord_def)

lemma line_7:
  "py_split (CHR '','') ''!AIVDM,1,1,,A,7,0*11'' = [''!AIVDM'', ''1'', ''1'', [], ''A'', ''7'', ''0*11'']"
  "checksum ''!AIVDM,1,1,,A,7,0*11'' = 17"
  by (simp_all add: checksum_def slice_from_def py_ord_def)

lemma line_0:
  "py_split (CHR '','') ''!AIVDM,1,1,,A,0,0*16'' = [''!AIVDM'', ''1'', ''1'', [], ''A'', ''0'', ''0*16'']"
  "checksum ''!AIVDM,1,1,,A,0,0*16'' = 22"
  by (simp_all add: checksum_def slice_from_def py_ord_def)

theorem decode_unimplemented_type_witness:
  "py_int 2 (slice 0 6 (decode_ascii6 ''6'')) = Inr 6
   \<and> checksum ''!AIVDM,1,1,,A,6,0*10'' = 16
   \<and> decode ''!AIVDM,1,1,,A,6,0*10'' = Inr ([], None)"
proof -
  have "decode ''!AIVDM,1,1,,A,6,0*10'' = Inr ([], None)"
    by (rule decode_unimplemented_type [where t = 6])
       (simp_all add: line_6 type_eval hex_eval slice_from_def)
  then show ?thesis using type_eval(1) line_6(2) by blast
qed

theorem decode_unimplemented_type_counterexample:
  "py_int 2 (slice 0 6 (decode_ascii6 ''6'')) = Inr 6
   \<and> py_int 2 (slice 0 6 (decode_ascii6 ''7'')) = Inr 7
   \<and> py_int 2 (slice 0 6 (decode_ascii6 ''0'')) = Inr 0
   \<and> decode ''!AIVDM,1,1,,A,6,0*10'' = Inr ([], None)
   \<and> decode ''!AIVDM,1,1,,A,7,0*11'' = Inr ([], None)
   \<and> decode ''!AIVDM,1,1,,A,0,0*16'' = Inr ([], None)"
proof -
  have a: "decode ''!AIVDM,1,1,,A,6,0*10'' = Inr ([], None)"
    by (rule decode_none_outcome [where t = 6])
       (simp_all add: line_6 type_eval hex_eval slice_from_def)
  have b: "decode ''!AIVDM,1,1,,A,7,0*11'' = Inr ([], None)"
    by (rule decode_none_outcome [where t = 7])
       (simp_all add: line_7 type_eval hex_eval slice_from_def)
  have c: "decode ''!AIVDM,1,1,,A,0,0*16'' = Inr ([], None)"
    by (rule decode_none_outcome [where t = 0])
       (simp_all add: line_0 type_eval hex_eval slice_from_def)
  show ?thesis using a b c type_eval by blast
qed

section \<open>The field decoders\<close>

lemma bindE_eq_Inr: "bindE m f = Inr y \<longleftrightarrow> (\<exists>x. m = Inr x \<and> f x = Inr y)"
  by (cases m) simp_all

lemmas field_eval =
  slice_def slice_from_def index_def signed_def subscript_def has_key_def py_bool_def
  bin_value_def is_bit_def to_int_bits UNDEFINED_def

text \<open>
  Claim C9. For every bit vector the type-4 decoder accepts, the decoded longitude equals
  the decoded latitude: both are the two's complement value of the bits [66:72) over
  600000.
\<close>

theorem decode_msg_4_lon_lat:
  assumes "decode_msg_4 bit_vector = Inr (Some m)"
  shows "map_of m ''lon'' = map_of m ''lat''
         \<and> (\<exists>v. signed (slice 66 72 bit_vector) = Inr v
                \<and> map_of m ''lon'' = Some (PFloat (real_of_int v / 600000)))"
  using assms by (auto simp: decode_msg_4_def bindE_eq_Inr)

theorem decode_msg_4_lon_lat_witness:
  "decode_msg_4 (decode_ascii6 ''403OviQuMGCqWrRO9>E6fE700@GO'') =
     Inr (Some
       [(''type'', PInt 4), (''repeat'', PInt 0), (''mmsi'', PInt 3669702),
        (''year'', PInt 2007), (''month'', PInt 5), (''day'', PInt 14),
        (''hour'', PInt 19), (''minute'', PInt 57), (''second'', PInt 39),
        (''accuracy'', PBool True), (''lon'', PFloat (- (7 / 600000))),
        (''lat'', PFloat (- (7 / 600000))),
        (''epfd'', PTuple 7 ''Surveyed''), (''raim'', PBool False),
        (''radio'', PInt 67039)])
   \<and> signed (slice 66 72 (decode_ascii6 ''403OviQuMGCqWrRO9>E6fE700@GO'')) = Inr (- 7)"
proof -
  have bits: "decode_ascii6 ''403OviQuMGCqWrRO9>E6fE700@GO'' =
    ''000100000000000011011111111110110001100001111101011101010111010011111001100111111010100010011111001001001110010101000110101110010101000111000000000000010000010111011111''"
    by code_simp
  have d: "decode_msg_4 (decode_ascii6 ''403OviQuMGCqWrRO9>E6fE700@GO'') =
     Inr (Some
       [(''type'', PInt 4), (''repeat'', PInt 0), (''mmsi'', PInt 3669702),
        (''year'', PInt 2007), (''month'', PInt 5), (''day'', PInt 14),
        (''hour'', PInt 19), (''minute'', PInt 57), (''second'', PInt 39),
        (''accuracy'', PBool True), (''lon'', PFloat (- (7 / 600000))),
        (''lat'', PFloat (- (7 / 600000))),
        (''epfd'', PTuple 7 ''Surveyed''), (''raim'', PBool False),
        (''radio'', PInt 67039)])"
    unfolding bits by (simp add: decode_msg_4_def field_eval EPFD_TYPE_def)
  have s: "signed (slice 66 72 (decode_ascii6 ''403OviQuMGCqWrRO9>E6fE700@GO'')) = Inr (- 7)"
    unfolding bits by (simp add: field_eval)
  from decode_msg_4_lon_lat [OF d] d s show ?thesis by blast
qed

section \<open>The position fields\<close>

lemma bin_value_acc:
  "foldl (\<lambda>a c. 2 * a + (if c = CHR ''1'' then 1 else 0)) (a::int) s =
   a * 2 ^ length s + foldl (\<lambda>a c. 2 * a + (if c = CHR ''1'' then 1 else 0)) 0 s"
proof -
  define F where "F = (\<lambda>(a::int) c. 2 * a + (if c = CHR ''1'' then 1 else 0))"
  have "foldl F a s = a * 2 ^ length s + foldl F 0 s"
  proof (induction s arbitrary: a)
    case Nil
    then show ?case by simp
  next
    case (Cons c s)
    define b where "b = (if c = CHR ''1'' then 1 else (0::int))"
    have 1: "foldl F a (c # s) = foldl F (2 * a + b) s"
      by (simp add: b_def F_def)
    have 2: "foldl F 0 (c # s) = foldl F b s"
      by (simp add: b_def F_def)
    have 3: "foldl F (2 * a + b) s = (2 * a + b) * 2 ^ length s + foldl F 0 s"
      by (rule Cons.IH)
    have 4: "foldl F b s = b * 2 ^ length s + foldl F 0 s"
      by (rule Cons.IH)
    show ?case
      unfolding 1 2 3 by (simp add: 4 algebra_simps)
  qed
  then show ?thesis by (simp add: F_def)
qed

lemma bin_value_Cons:
  "bin_value (c # r) = (if c = CHR ''1'' then 2 ^ length r else 0) + bin_value r"
  using bin_value_acc [of 1 r] by (simp add: bin_value_def)

text \<open>The two's complement value of \<open>n\<close> binary digits lies in \<open>[-2^(n-1), 2^(n-1))\<close>.\<close>

lemma signed_bounds:
  assumes "signed s = Inr v" and "length s \<le> Suc n"
  shows "- (2 ^ n) \<le> v \<and> v < 2 ^ n"
proof -
  from assms(1) have ne: "s \<noteq> []"
    by (auto simp: signed_def split: if_splits)
  then obtain c r where s: "s = c # r" by (cases s) auto
  have b: "0 \<le> bin_value r \<and> bin_value r < 2 ^ length r" by (rule bin_value_bounds)
  have "length r \<le> n" using assms(2) s by simp
  then have p: "(2::int) ^ length r \<le> 2 ^ n" by (intro power_increasing) simp_all
  have "- (2 ^ length r) \<le> v \<and> v < 2 ^ length r"
    using assms(1) b unfolding s
    by (auto simp: signed_def bin_value_Cons split: if_splits)
  then show ?thesis using p by linarith
qed

text \<open>
  Claim C4, as amended. For every type-1, type-2 or type-3 payload that the decoder
  accepts, the decoded longitude (the signed bits [61:89) over 600000) lies between
  \<open>-2^27 / 600000\<close> and \<open>(2^27 - 1) / 600000\<close>, about \<open>\<plusminus>223.7\<close>, and the decoded
  latitude (the signed bits [89:116) over 600000) between \<open>-2^26 / 600000\<close> and
  \<open>(2^26 - 1) / 600000\<close>, about \<open>\<plusminus>111.8\<close>. The decoder checks no range: values outside
  \<open>[-180, 180]\<close> and \<open>[-90, 90]\<close> are returned, as the counterexample below shows.
\<close>

theorem position_report_lon_lat_bounds:
  assumes "decode_msg_1 bit_vector = Inr (Some m) \<or> decode_msg_2 bit_vector = Inr (Some m)
           \<or> decode_msg_3 bit_vector = Inr (Some m)"
  shows "\<exists>lon lat. map_of m ''lon'' = Some (PFloat lon) \<and> map_of m ''lat'' = Some (PFloat lat)
           \<and> - (134217728 / 600000) \<le> lon \<and> lon \<le> 134217727 / 600000
           \<and> - (67108864 / 600000) \<le> lat \<and> lat \<le> 67108863 / 600000"
proof -
  from assms have "decode_msg_1 bit_vector = Inr (Some m)"
    by (auto simp: decode_msg_2_def decode_msg_3_def)
  then obtain x y where x: "signed (slice 61 89 bit_vector) = Inr x"
    and y: "signed (slice 89 116 bit_vector) = Inr y"
    and lon: "map_of m ''lon'' = Some (PFloat (real_of_int x / 600000))"
    and lat: "map_of m ''lat'' = Some (PFloat (real_of_int y / 600000))"
    by (auto simp: decode_msg_1_def bindE_eq_Inr)
  have "- (2 ^ 27) \<le> x \<and> x < 2 ^ 27"
    by (rule signed_bounds [OF x]) (simp add: slice_def)
  then have bnd_x: "- 134217728 \<le> real_of_int x" "real_of_int x \<le> 134217727"
    by simp_all
  have "- (2 ^ 26) \<le> y \<and> y < 2 ^ 26"
    by (rule signed_bounds [OF y]) (simp add: slice_def)
  then have bnd_y: "- 67108864 \<le> real_of_int y" "real_of_int y \<le> 67108863"
    by simp_all
  have "- (134217728 / 600000) \<le> real_of_int x / 600000"
    "real_of_int x / 600000 \<le> 134217727 / 600000"
    "- (67108864 / 600000) \<le> real_of_int y / 600000"
    "real_of_int y / 600000 \<le> 67108863 / 600000"
    using bnd_x bnd_y by (simp_all add: divide_le_cancel le_divide_eq)
  then show ?thesis using lon lat by blast
qed

theorem position_report_lon_lat_bounds_witness:
  "decode_msg_1 (decode_ascii6 ''15M67FC000G?ufbE`FepT@3n00Sa'') =
     Inr (Some
       [(''type'', PInt 1), (''repeat'', PInt 0), (''mmsi'', PInt 366053209),
        (''status'', PTuple 3 ''Restricted manoeuverability''),
        (''turn'', PInt 0), (''speed'', PInt 0), (''accuracy'', PInt 0),
        (''lon'', PFloat (- 73404971 / 600000)),
        (''lat'', PFloat (22681271 / 600000)),
        (''course'', PFloat (2193 / 10)), (''heading'', PInt 1),
        (''second'', PInt 59), (''maneuver'', PTuple 0 ''Not available''),
        (''raim'', PBool False), (''radio'', PInt 2281)])
   \<and> - (134217728 / 600000) \<le> (- 73404971 / 600000 :: real)
   \<and> (- 73404971 / 600000 :: real) \<le> 134217727 / 600000
   \<and> - (67108864 / 600000) \<le> (22681271 / 600000 :: real)
   \<and> (22681271 / 600000 :: real) \<le> 67108863 / 600000"
proof -
  have bits: "decode_ascii6 ''15M67FC000G?ufbE`FepT@3n00Sa'' =
    ''000001000101011101000110000111010110010011000000000000000000010111001111111101101110101010010101101000010110101101111000100100010000000011110110000000000000100011101001''"
    by code_simp
  have d: "decode_msg_1 (decode_ascii6 ''15M67FC000G?ufbE`FepT@3n00Sa'') =
     Inr (Some
       [(''type'', PInt 1), (''repeat'', PInt 0), (''mmsi'', PInt 366053209),
        (''status'', PTuple 3 ''Restricted manoeuverability''),
        (''turn'', PInt 0), (''speed'', PInt 0), (''accuracy'', PInt 0),
        (''lon'', PFloat (- 73404971 / 600000)),
        (''lat'', PFloat (22681271 / 600000)),
        (''course'', PFloat (2193 / 10)), (''heading'', PInt 1),
        (''second'', PInt 59), (''maneuver'', PTuple 0 ''Not available''),
        (''raim'', PBool False), (''radio'', PInt 2281)])"
    unfolding bits
    by (simp add: decode_msg_1_def field_eval NAVIGATION_STATUS_def MANEUVER_INDICATOR_def)
  from position_report_lon_lat_bounds [OF disjI1, OF d] d show ?thesis
    by simp
qed

text \<open>
  The dispatch of a line that passes the checks: the decoder of the type code is applied
  to the expanded payload.
\<close>

lemma decode_dispatch:
  assumes "py_split (CHR '','') msg = [tag, ''1'', ''1'', seq_id, channel, data, chcksum]"
    and "decode_ascii6 data = bits"
    and "py_int 2 (slice 0 6 bits) = Inr t"
    and "py_int 16 (''0x'' @ slice_from 2 chcksum) = Inr (checksum msg)"
    and "0 < t" and "t < 25"
    and "DECODE_MSG ! nat t = Some decoder"
  shows "decode msg = bindE (decoder bits) (\<lambda>r. Inr ([], r))"
proof -
  have l: "length (py_split (CHR '','') msg) = 7" by (simp add: assms(1))
  show ?thesis
    unfolding decode_seven [OF l] unfolding assms(1)
    using assms(2-7) by simp
qed

theorem position_report_range_counterexample:
  "decode ''!AIVDM,1,1,,A,1000000000?0000w000000000000,0*6F'' =
     Inr ([], Some
       [(''type'', PInt 1), (''repeat'', PInt 0), (''mmsi'', PInt 0),
        (''status'', PTuple 0 ''Under way using engine''),
        (''turn'', PInt 0), (''speed'', PInt 0), (''accuracy'', PInt 0),
        (''lon'', PFloat (125829120 / 600000)),
        (''lat'', PFloat (66060288 / 600000)),
        (''course'', PFloat 0), (''heading'', PInt 0),
        (''second'', PInt 0), (''maneuver'', PTuple 0 ''Not available''),
        (''raim'', PBool False), (''radio'', PInt 0)])
   \<and> (180 :: real) < 125829120 / 600000
   \<and> (90 :: real) < 66060288 / 600000"
proof -
  let ?msg = "''!AIVDM,1,1,,A,1000000000?0000w000000000000,0*6F''"
  let ?bits = "''000001000000000000000000000000000000000000000000000000000000001111000000000000000000000000111111000000000000000000000000000000000000000000000000000000000000000000000000''"
  have s: "py_split (CHR '','') ?msg =
      [''!AIVDM'', ''1'', ''1'', [], ''A'', ''1000000000?0000w000000000000'', ''0*6F'']"
    by simp
  have bits: "decode_ascii6 ''1000000000?0000w000000000000'' = ?bits"
    by code_simp
  have t: "py_int 2 (slice 0 6 ?bits) = Inr 1"
    by (simp add: slice_def py_int_bits is_bit_def bin_value_def)
  have c: "checksum ?msg = 111"
    by (simp add: checksum_def slice_from_def py_ord_def)
  have h: "py_int 16 (''0x'' @ slice_from 2 ''0*6F'') = Inr (checksum ?msg)"
    unfolding c
    by (simp add: slice_from_def py_int_def strip_sign_def strip_prefix_def is_space_def
        is_digit_def digit_value_def base_letters_def digits_value_def)
  have d: "DECODE_MSG ! nat 1 = Some decode_msg_1"
    by (simp add: DECODE_MSG_def)
  have "decode ?msg = bindE (decode_msg_1 ?bits) (\<lambda>r. Inr ([], r))"
    by (rule decode_dispatch [OF s bits t h _ _ d]) simp_all
  then show ?thesis
    by (simp add: decode_msg_1_def field_eval NAVIGATION_STATUS_def MANEUVER_INDICATOR_def)
qed

section \<open>The enumerated fields\<close>

text \<open>Packed text that starts with a filler, or is empty, decodes to the empty text.\<close>

lemma filler_text:
  "ascii6 ''000000000000000000000000000000000000000000'' True = Inr []"
  "ascii6 ''000000000000000000000000000000000000000000000000000000000000000000000000000000000000000000000000000000000000000000000000'' True = Inr []"
  "ascii6 [] True = Inr []"
  by code_simp+

text \<open>
  Claim C1 fails on the code. The maneuver indicator of the types 1, 2 and 3 and the EPFD
  type of type 5 are looked up with a plain subscript, which raises \<open>KeyError\<close> for a
  code the table does not have: 3 for the maneuver indicator, 9 to 15 for the EPFD
  type. The type-4 decoder guards the same EPFD lookup with the fallback
  \<open>Undefined\<close>, and the type-5 decoder guards its ship type in the same way. The
  theorem evaluates \<open>decode\<close> on a type-5 line with the EPFD code 15, on a type-1 line
  with the maneuver code 3, and on a type-4 line with the EPFD code 15.
\<close>

theorem enum_lookup_key_error:
  "decode ''!AIVDM,1,1,,A,500000000000000000000000000000000000000000000t,0*67'' = Inl (KeyError 15)
   \<and> decode ''!AIVDM,1,1,,A,100000000000000000000001P000,0*46'' = Inl (KeyError 3)
   \<and> decode ''!AIVDM,1,1,,A,4000000000000000000000?00000,0*2D'' =
       Inr ([], Some
         [(''type'', PInt 4), (''repeat'', PInt 0), (''mmsi'', PInt 0),
          (''year'', PInt 0), (''month'', PInt 0), (''day'', PInt 0),
          (''hour'', PInt 0), (''minute'', PInt 0), (''second'', PInt 0),
          (''accuracy'', PBool False), (''lon'', PFloat 0),
          (''lat'', PFloat 0), (''epfd'', PTuple 15 ''Undefined''),
          (''raim'', PBool False), (''radio'', PInt 0)])"
proof -
  let ?m5 = "''!AIVDM,1,1,,A,500000000000000000000000000000000000000000000t,0*67''"
  let ?b5 = "''000101000000000000000000000000000000000000000000000000000000000000000000000000000000000000000000000000000000000000000000000000000000000000000000000000000000000000000000000000000000000000000000000000000000000000000000000000000000000000000000000000000000000000000000000000111100''"
  have s5: "py_split (CHR '','') ?m5 =
      [''!AIVDM'', ''1'', ''1'', [], ''A'', ''500000000000000000000000000000000000000000000t'', ''0*67'']"
    by simp
  have b5: "decode_ascii6 ''500000000000000000000000000000000000000000000t'' = ?b5"
    by code_simp
  have t5: "py_int 2 (slice 0 6 ?b5) = Inr 5"
    by (simp add: slice_def py_int_bits is_bit_def bin_value_def)
  have c5: "checksum ?m5 = 103"
    by (simp add: checksum_def slice_from_def py_ord_def)
  have h5: "py_int 16 (''0x'' @ slice_from 2 ''0*67'') = Inr (checksum ?m5)"
    unfolding c5
    by (simp add: slice_from_def py_int_def strip_sign_def strip_prefix_def is_space_def
        is_digit_def digit_value_def base_letters_def digits_value_def)
  have d5: "DECODE_MSG ! nat 5 = Some decode_msg_5"
    by (simp add: DECODE_MSG_def)
  have "decode ?m5 = bindE (decode_msg_5 ?b5) (\<lambda>r. Inr ([], r))"
    by (rule decode_dispatch [OF s5 b5 t5 h5 _ _ d5]) simp_all
  then have r5: "decode ?m5 = Inl (KeyError 15)"
    by (simp add: decode_msg_5_def field_eval filler_text SHIP_TYPE_def EPFD_TYPE_def)
  let ?m1 = "''!AIVDM,1,1,,A,100000000000000000000001P000,0*46''"
  let ?b1 = "''000001000000000000000000000000000000000000000000000000000000000000000000000000000000000000000000000000000000000000000000000000000000000000000001100000000000000000000000''"
  have s1: "py_split (CHR '','') ?m1 =
      [''!AIVDM'', ''1'', ''1'', [], ''A'', ''100000000000000000000001P000'', ''0*46'']"
    by simp
  have b1: "decode_ascii6 ''100000000000000000000001P000'' = ?b1"
    by code_simp
  have t1: "py_int 2 (slice 0 6 ?b1) = Inr 1"
    by (simp add: slice_def py_int_bits is_bit_def bin_value_def)
  have c1: "checksum ?m1 = 70"
    by (simp add: checksum_def slice_from_def py_ord_def)
  have h1: "py_int 16 (''0x'' @ slice_from 2 ''0*46'') = Inr (checksum ?m1)"
    unfolding c1
    by (simp add: slice_from_def py_int_def strip_sign_def strip_prefix_def is_space_def
        is_digit_def digit_value_def base_letters_def digits_value_def)
  have d1: "DECODE_MSG ! nat 1 = Some decode_msg_1"
    by (simp add: DECODE_MSG_def)
  have "decode ?m1 = bindE (decode_msg_1 ?b1) (\<lambda>r. Inr ([], r))"
    by (rule decode_dispatch [OF s1 b1 t1 h1 _ _ d1]) simp_all
  then have r1: "decode ?m1 = Inl (KeyError 3)"
    by (simp add: decode_msg_1_def field_eval NAVIGATION_STATUS_def MANEUVER_INDICATOR_def)
  let ?m4 = "''!AIVDM,1,1,,A,4000000000000000000000?00000,0*2D''"
  let ?b4 = "''000100000000000000000000000000000000000000000000000000000000000000000000000000000000000000000000000000000000000000000000000000000000001111000000000000000000000000000000''"
  have s4: "py_split (CHR '','') ?m4 =
      [''!AIVDM'', ''1'', ''1'', [], ''A'', ''4000000000000000000000?00000'', ''0*2D'']"
    by simp
  have b4: "decode_ascii6 ''4000000000000000000000?00000'' = ?b4"
    by code_simp
  have t4: "py_int 2 (slice 0 6 ?b4) = Inr 4"
    by (simp add: slice_def py_int_bits is_bit_def bin_value_def)
  have c4: "checksum ?m4 = 45"
    by (simp add: checksum_def slice_from_def py_ord_def)
  have h4: "py_int 16 (''0x'' @ slice_from 2 ''0*2D'') = Inr (checksum ?m4)"
    unfolding c4
    by (simp add: slice_from_def py_int_def strip_sign_def strip_prefix_def is_space_def
        is_digit_def digit_value_def base_letters_def digits_value_def)
  have d4: "DECODE_MSG ! nat 4 = Some decode_msg_4"
    by (simp add: DECODE_MSG_def)
  have "decode ?m4 = bindE (decode_msg_4 ?b4) (\<lambda>r. Inr ([], r))"
    by (rule decode_dispatch [OF s4 b4 t4 h4 _ _ d4]) simp_all
  then have r4: "decode ?m4 =
       Inr ([], Some
         [(''type'', PInt 4), (''repeat'', PInt 0), (''mmsi'', PInt 0),
          (''year'', PInt 0), (''month'', PInt 0), (''day'', PInt 0),
          (''hour'', PInt 0), (''minute'', PInt 0), (''second'', PInt 0),
          (''accuracy'', PBool False), (''lon'', PFloat 0),
          (''lat'', PFloat 0), (''epfd'', PTuple 15 ''Undefined''),
          (''raim'', PBool False), (''radio'', PInt 0)])"
    by (simp add: decode_msg_4_def field_eval EPFD_TYPE_def)
  show ?thesis using r5 r1 r4 by blast
qed

theorem enum_lookup_key_error_witness:
  "decode ''!AIVDM,1,1,,A,500000000000000000000000000000000000000000000t,0*67'' = Inl (KeyError 15)"
  using enum_lookup_key_error by blast

end
